theory Spec2Isabelle
  imports Complex_Main
begin

section \<open>Values, errors and the remote HTTP boundary\<close>

text \<open>
  The repository is a protocol adapter in TypeScript: \<^verbatim>\<open>src/index.ts\<close> registers the
  resource and tool handlers on the low-level \<^verbatim>\<open>Server\<close>, \<^verbatim>\<open>src/stdio-server.ts\<close> registers
  four of the tools on \<^verbatim>\<open>McpServer\<close>, and \<^verbatim>\<open>src/sliteApi.ts\<close> is the remote client both
  use. The model follows the declared TypeScript types: a value of type \<^verbatim>\<open>T | undefined\<close>
  (an optional property or parameter) is a \<open>T option\<close>, with \<open>None\<close> for \<^verbatim>\<open>undefined\<close>.
  The handler in \<^verbatim>\<open>index.ts\<close> casts \<^verbatim>\<open>request.params.arguments\<close> without checking it, so a
  property the cast calls required may still be missing at run time; such a property is
  an option as well and \<^verbatim>\<open>undefined\<close> flows on as the JavaScript does.
  Writes to the diagnostic stream (\<^verbatim>\<open>console.error\<close>) are left out.
\<close>

text \<open>JSON-like values: request bodies, query parameters and the untyped (\<^verbatim>\<open>any\<close>)
  payloads of the informational endpoints.\<close>

datatype json =
    JUndefined
  | JNull
  | JBool bool
  | JNumber real
  | JString string
  | JArray "json list"
  | JObject "(string \<times> json) list"

text \<open>The error codes of the protocol that the handlers use.\<close>

datatype ErrorCode = InvalidRequest | MethodNotFound | InternalError

text \<open>
  What a \<^verbatim>\<open>throw\<close> carries: an \<^verbatim>\<open>Error\<close> instance with its message (\<open>Error\<close>), the
  protocol's \<^verbatim>\<open>McpError(code, message)\<close> (a subclass of \<^verbatim>\<open>Error\<close>), or a value that is not
  an \<^verbatim>\<open>Error\<close>, kept as its \<^verbatim>\<open>String(...)\<close> conversion.
\<close>

datatype exn =
    Error string
  | McpError ErrorCode string
  | NonError string

text \<open>Interface \<^verbatim>\<open>SliteNote\<close> of \<^verbatim>\<open>sliteApi.ts\<close>.\<close>

record SliteNote =
  note_id :: string
  note_title :: string
  note_markdown :: "string option"
  note_parentNoteId :: "string option"
  note_attributes :: "string list option"
  note_createdAt :: string
  note_updatedAt :: string

text \<open>Interface \<^verbatim>\<open>SliteSearchResult\<close> of \<^verbatim>\<open>sliteApi.ts\<close>.\<close>

record SliteSearchResult =
  result_id :: string
  result_title :: string
  result_snippet :: "string option"
  result_type :: string

text \<open>The \<^verbatim>\<open>updates\<close> object of \<^verbatim>\<open>updateNote\<close>: a key that is absent is \<open>None\<close>.\<close>

record updates =
  upd_title :: "string option"
  upd_markdown :: "string option"
  upd_parentNoteId :: "string option"
  upd_attributes :: "string list option"

text \<open>
  One outbound call of the axios instance: \<^verbatim>\<open>api.get(url, {params})\<close> (no parameters is
  the empty list), \<^verbatim>\<open>api.post(url, payload)\<close> and \<^verbatim>\<open>api.put(url, updates)\<close>. An object
  literal is the list of its keys and values in the order they were set.
\<close>

datatype http_request =
    Get string "(string \<times> json) list"
  | Post string "(string \<times> json) list"
  | Put string updates

text \<open>
  Everything outside the repository is a parameter. The three \<open>*_api\<close> fields are the
  remote service seen through axios: for a request, either the \<^verbatim>\<open>response.data\<close> or the
  thrown failure. \<open>any_api\<close> gives the data as the JSON value that was received; it serves
  the methods whose data is handed on whole (\<^verbatim>\<open>getNote\<close> and the informational endpoints).
  \<open>note_api\<close> serves \<^verbatim>\<open>createNote\<close> and \<^verbatim>\<open>updateNote\<close>, whose data is only read at \<^verbatim>\<open>title\<close> and
  \<^verbatim>\<open>id\<close>, at the declared type. For the search endpoint the data is the \<^verbatim>\<open>results\<close> property
  of \<^verbatim>\<open>response.data\<close>, \<open>None\<close> when the response omits it. \<open>mcp_message\<close> is the \<^verbatim>\<open>message\<close>
  property the SDK gives an \<^verbatim>\<open>McpError\<close>, \<open>stringify\<close> is \<^verbatim>\<open>JSON.stringify(v, null, 2)\<close>,
  \<open>type_error_message\<close> is the engine's message for destructuring \<^verbatim>\<open>undefined\<close>, and
  \<open>property_error_message v p\<close> is its message for reading the property \<open>p\<close> of \<open>v\<close> when
  \<open>v\<close> is \<^verbatim>\<open>null\<close> or \<^verbatim>\<open>undefined\<close>.
\<close>

record env =
  note_api :: "http_request \<Rightarrow> exn + SliteNote"
  search_api :: "http_request \<Rightarrow> exn + SliteSearchResult list option"
  any_api :: "http_request \<Rightarrow> exn + json"
  mcp_message :: "ErrorCode \<Rightarrow> string \<Rightarrow> string"
  stringify :: "json \<Rightarrow> string"
  type_error_message :: string
  property_error_message :: "json \<Rightarrow> string \<Rightarrow> string"

text \<open>\<^verbatim>\<open>error instanceof Error ? error.message : String(error)\<close>\<close>

fun error_message :: "env \<Rightarrow> exn \<Rightarrow> string" where
  "error_message E (Error m) = m"
| "error_message E (McpError c m) = mcp_message E c m"
| "error_message E (NonError s) = s"

text \<open>A string in a template literal: \<^verbatim>\<open>`${s}`\<close>, where \<^verbatim>\<open>undefined\<close> prints its name.\<close>

fun str :: "string option \<Rightarrow> string" where
  "str None = ''undefined''"
| "str (Some s) = s"

text \<open>A string or a string array as a value of an object literal.\<close>

fun js_string :: "string option \<Rightarrow> json" where
  "js_string None = JUndefined"
| "js_string (Some s) = JString s"

definition js_strings :: "string list \<Rightarrow> json" where
  "js_strings xs = JArray (map JString xs)"

text \<open>Truthiness of an optional string (\<^verbatim>\<open>undefined\<close> and \<^verbatim>\<open>""\<close> are falsy) and of an
  optional array (only \<^verbatim>\<open>undefined\<close> is falsy: an empty array is truthy).\<close>

fun truthy_string :: "string option \<Rightarrow> bool" where
  "truthy_string None = False"
| "truthy_string (Some s) = (s \<noteq> [])"

fun truthy_array :: "'a list option \<Rightarrow> bool" where
  "truthy_array None = False"
| "truthy_array (Some xs) = True"

definition dquote :: string where
  "dquote = [CHR 0x22]"

definition newline :: string where
  "newline = [CHR 0x0A]"

text \<open>\<^verbatim>\<open>a || b\<close> on an optional string \<open>a\<close>: \<open>a\<close> when it is truthy, otherwise \<open>b\<close>.\<close>

fun or_string :: "string option \<Rightarrow> string \<Rightarrow> string" where
  "or_string None b = b"
| "or_string (Some s) b = (if s \<noteq> [] then s else b)"

text \<open>Truthiness of a JSON value: \<^verbatim>\<open>undefined\<close>, \<^verbatim>\<open>null\<close>, \<^verbatim>\<open>false\<close>, \<^verbatim>\<open>0\<close> and \<^verbatim>\<open>""\<close> are falsy.\<close>

fun truthy :: "json \<Rightarrow> bool" where
  "truthy JUndefined = False"
| "truthy JNull = False"
| "truthy (JBool b) = b"
| "truthy (JNumber n) = (n \<noteq> 0)"
| "truthy (JString s) = (s \<noteq> [])"
| "truthy (JArray xs) = True"
| "truthy (JObject kvs) = True"

text \<open>
  \<^verbatim>\<open>v.p\<close> for a value that is neither \<^verbatim>\<open>null\<close> nor \<^verbatim>\<open>undefined\<close> and a name \<open>p\<close> that no
  prototype defines (the handlers read \<^verbatim>\<open>title\<close> and \<^verbatim>\<open>markdown\<close>): the value of the key in
  an object, \<^verbatim>\<open>undefined\<close> when the object has no such key or the value is not an object.
\<close>

fun property_of :: "json \<Rightarrow> string \<Rightarrow> json" where
  "property_of (JObject kvs) p = (case map_of kvs p of None \<Rightarrow> JUndefined | Some v \<Rightarrow> v)"
| "property_of v p = JUndefined"

text \<open>\<^verbatim>\<open>xs.join(sep)\<close>\<close>

fun join :: "string \<Rightarrow> string list \<Rightarrow> string" where
  "join sep [] = []"
| "join sep [x] = x"
| "join sep (x # y # ys) = x @ sep @ join sep (y # ys)"

section \<open>The remote client (\<^verbatim>\<open>SliteApiClient\<close>)\<close>

text \<open>
  Every method returns what it returns or throws (\<open>Inl\<close> the thrown value) together
  with the requests it issued, in order. Each method is one \<^verbatim>\<open>try\<close> around one request
  whose \<^verbatim>\<open>catch\<close> throws a new \<^verbatim>\<open>Error\<close> with the cause's message embedded.
\<close>

type_synonym 'a io = "(exn + 'a) \<times> http_request list"

datatype note_format = Md | Html

fun format_text :: "note_format \<Rightarrow> string" where
  "format_text Md = ''md''"
| "format_text Html = ''html''"

text \<open>
  \<^verbatim>\<open>getNote\<close> returns \<^verbatim>\<open>response.data\<close> as it was received. Its declared type
  \<^verbatim>\<open>Promise<SliteNote>\<close> checks nothing at run time, and the read handler serializes the
  whole value, so the data stays the JSON value it is.
\<close>

definition getNote :: "env \<Rightarrow> string option \<Rightarrow> note_format option \<Rightarrow> json io" where
  "getNote E noteId format =
     (let format = (case format of None \<Rightarrow> Md | Some f \<Rightarrow> f);
          req = Get (''/notes/'' @ str noteId @ ''?format='' @ format_text format) []
      in case any_api E req of
           Inr data \<Rightarrow> (Inr data, [req])
         | Inl error \<Rightarrow>
             (Inl (Error (''Failed to fetch note '' @ str noteId @ '': '' @ error_message E error)),
              [req]))"

definition createNote ::
  "env \<Rightarrow> string option \<Rightarrow> string option \<Rightarrow> string option \<Rightarrow> string option \<Rightarrow>
   string list option \<Rightarrow> SliteNote io" where
  "createNote E title markdown parentNoteId templateId attributes =
     (let payload = [(''title'', js_string title), (''markdown'', js_string markdown)];
          payload = (if truthy_string parentNoteId
                     then payload @ [(''parentNoteId'', js_string parentNoteId)] else payload);
          payload = (if truthy_string templateId
                     then payload @ [(''templateId'', js_string templateId)] else payload);
          payload = (case attributes of
                       None \<Rightarrow> payload
                     | Some xs \<Rightarrow>
                         if length xs > 0 then payload @ [(''attributes'', js_strings xs)]
                         else payload);
          req = Post ''/notes'' payload
      in case note_api E req of
           Inr data \<Rightarrow> (Inr data, [req])
         | Inl error \<Rightarrow>
             (Inl (Error (''Failed to create note: '' @ error_message E error)), [req]))"

definition updateNote :: "env \<Rightarrow> string option \<Rightarrow> updates \<Rightarrow> SliteNote io" where
  "updateNote E noteId upd =
     (let req = Put (''/notes/'' @ str noteId) upd
      in case note_api E req of
           Inr data \<Rightarrow> (Inr data, [req])
         | Inl error \<Rightarrow>
             (Inl (Error (''Failed to update note '' @ str noteId @ '': '' @ error_message E error)),
              [req]))"

text \<open>
  \<^verbatim>\<open>searchNotes(query, limit = 10)\<close> returns \<^verbatim>\<open>response.data.results || []\<close>. A response
  without data makes the property access throw inside the same \<^verbatim>\<open>try\<close>, which the
  environment covers as a thrown failure.
\<close>

definition searchNotes :: "env \<Rightarrow> string option \<Rightarrow> real option \<Rightarrow> SliteSearchResult list io" where
  "searchNotes E query limit =
     (let limit = (case limit of None \<Rightarrow> 10 | Some l \<Rightarrow> l);
          req = Get ''/search-notes'' [(''q'', js_string query), (''limit'', JNumber limit)]
      in case search_api E req of
           Inr results \<Rightarrow> (Inr (case results of None \<Rightarrow> [] | Some rs \<Rightarrow> rs), [req])
         | Inl error \<Rightarrow>
             (Inl (Error (''Failed to search for '' @ dquote @ str query @ dquote @ '': ''
                          @ error_message E error)),
              [req]))"

definition getAskInfo :: "env \<Rightarrow> json io" where
  "getAskInfo E =
     (let req = Get ''/ask'' []
      in case any_api E req of
           Inr data \<Rightarrow> (Inr data, [req])
         | Inl error \<Rightarrow>
             (Inl (Error (''Failed to fetch Ask info: '' @ error_message E error)), [req]))"

definition getAskIndex :: "env \<Rightarrow> json io" where
  "getAskIndex E =
     (let req = Get ''/ask/index'' []
      in case any_api E req of
           Inr data \<Rightarrow> (Inr data, [req])
         | Inl error \<Rightarrow>
             (Inl (Error (''Failed to fetch Ask index: '' @ error_message E error)), [req]))"

definition getAutomationAssistant :: "env \<Rightarrow> string option \<Rightarrow> json io" where
  "getAutomationAssistant E assistantId =
     (let req = Get (''/super/automation/'' @ str assistantId) []
      in case any_api E req of
           Inr data \<Rightarrow> (Inr data, [req])
         | Inl error \<Rightarrow>
             (Inl (Error (''Failed to fetch automation assistant '' @ str assistantId @ '': ''
                          @ error_message E error)),
              [req]))"

section \<open>The adapter of \<^verbatim>\<open>index.ts\<close>: resources\<close>

text \<open>\<open>strip_prefix p s\<close> is the rest of \<open>s\<close> after the literal \<open>p\<close>, if \<open>s\<close> starts with it.\<close>

fun strip_prefix :: "string \<Rightarrow> string \<Rightarrow> string option" where
  "strip_prefix [] s = Some s"
| "strip_prefix (p # ps) [] = None"
| "strip_prefix (p # ps) (c # cs) = (if p = c then strip_prefix ps cs else None)"

text \<open>
  \<^verbatim>\<open>uri.match(/^slite:\/\/notes(?:\/([^/]+))?$/)\<close>: \<open>None\<close> is \<^verbatim>\<open>null\<close> (no match), and
  \<open>Some g\<close> is a match whose group 1 is \<open>g\<close>, \<^verbatim>\<open>undefined\<close> when the optional part matched
  nothing. The group is one or more characters other than the slash, up to the end of
  the input.
\<close>

definition match_notes_uri :: "string \<Rightarrow> string option option" where
  "match_notes_uri uri =
     (case strip_prefix ''slite://notes'' uri of
        None \<Rightarrow> None
      | Some rest \<Rightarrow>
          (case rest of
             [] \<Rightarrow> Some None
           | c # seg \<Rightarrow>
               if c = CHR ''/'' \<and> seg \<noteq> [] \<and> CHR ''/'' \<notin> set seg then Some (Some seg)
               else None))"

record resource_content =
  rc_uri :: string
  rc_title :: json
  rc_text :: json

record ReadResourceResult =
  contents :: "resource_content list"

text \<open>
  The handler of \<^verbatim>\<open>ReadResourceRequestSchema\<close>. The URI check throws before the
  \<^verbatim>\<open>try\<close>; the \<^verbatim>\<open>catch\<close> of the \<^verbatim>\<open>try\<close> throws an \<^verbatim>\<open>McpError\<close> of its own. Inside the
  \<^verbatim>\<open>try\<close>, \<^verbatim>\<open>note.title\<close> is read first and throws a \<^verbatim>\<open>TypeError\<close> when the data is \<^verbatim>\<open>null\<close> or
  \<^verbatim>\<open>undefined\<close>; the text is \<^verbatim>\<open>note.markdown || JSON.stringify(note, null, 2)\<close>, with the note
  that was received as the argument of the serializer.
\<close>

definition ReadResource :: "env \<Rightarrow> string \<Rightarrow> ReadResourceResult io" where
  "ReadResource E uri =
     (case match_notes_uri uri of
        None \<Rightarrow> (Inl (McpError InvalidRequest (''Invalid URI format: '' @ uri)), [])
      | Some noteId \<Rightarrow>
          if truthy_string noteId then
            (case getNote E noteId None of
               (Inr note, tr) \<Rightarrow>
                 if note = JNull \<or> note = JUndefined then
                   (Inl (McpError InternalError
                           (''Failed to fetch note information: ''
                            @ property_error_message E note ''title'')),
                    tr)
                 else
                   (Inr \<lparr>contents =
                           [\<lparr>rc_uri = uri, rc_title = property_of note ''title'',
                             rc_text =
                               (let markdown = property_of note ''markdown''
                                in if truthy markdown then markdown
                                   else JString (stringify E note))\<rparr>]\<rparr>,
                    tr)
             | (Inl error, tr) \<Rightarrow>
                 (Inl (McpError InternalError
                         (''Failed to fetch note information: '' @ error_message E error)),
                  tr))
          else
            (Inr \<lparr>contents =
                    [\<lparr>rc_uri = uri, rc_title = JString ''All Notes'',
                      rc_text = JString ''This would list all notes from Slite. In a real implementation, you would fetch all notes from the Slite API.''\<rparr>]\<rparr>,
             []))"

section \<open>The adapter of \<^verbatim>\<open>index.ts\<close>: tools\<close>

text \<open>An entry of the catalog that \<^verbatim>\<open>tools/list\<close> returns: the name, the description,
  and from the input schema the properties with their types and the required ones.\<close>

record tool =
  tool_name :: string
  tool_description :: string
  tool_properties :: "(string \<times> string) list"
  tool_required :: "string list"

definition ListTools :: "tool list" where
  "ListTools =
     [\<lparr>tool_name = ''search-notes'', tool_description = ''Search for notes in Slite'',
       tool_properties = [(''query'', ''string''), (''limit'', ''number'')],
       tool_required = [''query'']\<rparr>,
      \<lparr>tool_name = ''create-note'', tool_description = ''Create a new note in Slite'',
       tool_properties =
         [(''title'', ''string''), (''markdown'', ''string''), (''parentNoteId'', ''string''),
          (''templateId'', ''string''), (''attributes'', ''array'')],
       tool_required = [''title'', ''markdown'']\<rparr>,
      \<lparr>tool_name = ''update-note'', tool_description = ''Update an existing note in Slite'',
       tool_properties =
         [(''noteId'', ''string''), (''title'', ''string''), (''markdown'', ''string''),
          (''parentNoteId'', ''string''), (''attributes'', ''array'')],
       tool_required = [''noteId'']\<rparr>,
      \<lparr>tool_name = ''get-ask-info'', tool_description = ''Get Slite Ask information'',
       tool_properties = [], tool_required = []\<rparr>,
      \<lparr>tool_name = ''get-ask-index'', tool_description = ''Get Slite Ask index information'',
       tool_properties = [], tool_required = []\<rparr>,
      \<lparr>tool_name = ''get-automation-assistant'',
       tool_description = ''Get automation assistant information'',
       tool_properties = [(''assistantId'', ''string'')],
       tool_required = [''assistantId'']\<rparr>]"

text \<open>
  \<^verbatim>\<open>request.params.arguments\<close>: every property a handler reads, at the type its cast and
  the input schema give it, \<open>None\<close> when the object has no such property.
\<close>

record arguments =
  arg_query :: "string option"
  arg_limit :: "real option"
  arg_title :: "string option"
  arg_markdown :: "string option"
  arg_parentNoteId :: "string option"
  arg_templateId :: "string option"
  arg_attributes :: "string list option"
  arg_noteId :: "string option"
  arg_assistantId :: "string option"

record content_block =
  block_type :: string
  block_text :: string

text \<open>The result of a tool call; \<open>isError = None\<close> is a result without that key.\<close>

record CallToolResult =
  content :: "content_block list"
  isError :: "bool option"

definition text_result :: "string \<Rightarrow> CallToolResult" where
  "text_result t = \<lparr>content = [\<lparr>block_type = ''text'', block_text = t\<rparr>], isError = None\<rparr>"

text \<open>The \<^verbatim>\<open>case\<close> labels of the \<^verbatim>\<open>switch (name)\<close>, in source order, each with its branch.\<close>

datatype branch =
    SearchNotes | CreateNote | UpdateNote | GetAskInfo | GetAskIndex | GetAutomationAssistant

definition switch_cases :: "(string \<times> branch) list" where
  "switch_cases =
     [(''search-notes'', SearchNotes),
      (''create-note'', CreateNote),
      (''update-note'', UpdateNote),
      (''get-ask-info'', GetAskInfo),
      (''get-ask-index'', GetAskIndex),
      (''get-automation-assistant'', GetAutomationAssistant)]"

text \<open>\<^verbatim>\<open>`- ${item.title}: ${item.snippet || 'No snippet available'} (${item.type})`\<close>\<close>

definition result_line :: "SliteSearchResult \<Rightarrow> string" where
  "result_line item =
     ''- '' @ result_title item @ '': '' @ or_string (result_snippet item) ''No snippet available''
     @ '' ('' @ result_type item @ '')''"

text \<open>The four assignments that fill the \<^verbatim>\<open>updates\<close> object of the update-note code.\<close>

definition build_updates ::
  "string option \<Rightarrow> string option \<Rightarrow> string option \<Rightarrow> string list option \<Rightarrow> updates" where
  "build_updates title markdown parentNoteId attributes =
     (let upd = \<lparr>upd_title = None, upd_markdown = None, upd_parentNoteId = None,
                 upd_attributes = None\<rparr>;
          upd = (if truthy_string title then upd\<lparr>upd_title := title\<rparr> else upd);
          upd = (if truthy_string markdown then upd\<lparr>upd_markdown := markdown\<rparr> else upd);
          upd = (if truthy_string parentNoteId then upd\<lparr>upd_parentNoteId := parentNoteId\<rparr>
                 else upd);
          upd = (if truthy_array attributes then upd\<lparr>upd_attributes := attributes\<rparr> else upd)
      in upd)"

text \<open>
  The body of one \<^verbatim>\<open>case\<close>. Destructuring \<^verbatim>\<open>args\<close> when the request has no arguments throws
  a \<^verbatim>\<open>TypeError\<close>; the two branches that never read \<^verbatim>\<open>args\<close> do not.
\<close>

fun run_branch :: "env \<Rightarrow> branch \<Rightarrow> arguments option \<Rightarrow> CallToolResult io" where
  "run_branch E SearchNotes None = (Inl (Error (type_error_message E)), [])"
| "run_branch E SearchNotes (Some args) =
     (let query = arg_query args;
          limit = (case arg_limit args of None \<Rightarrow> 10 | Some l \<Rightarrow> l)
      in case searchNotes E query (Some limit) of
           (Inl error, tr) \<Rightarrow> (Inl error, tr)
         | (Inr results, tr) \<Rightarrow>
             (Inr (text_result
                     (''Search results for '' @ dquote @ str query @ dquote @ '':'' @ newline
                      @ newline @ join newline (map result_line results))),
              tr))"
| "run_branch E CreateNote None = (Inl (Error (type_error_message E)), [])"
| "run_branch E CreateNote (Some args) =
     (case createNote E (arg_title args) (arg_markdown args) (arg_parentNoteId args)
             (arg_templateId args) (arg_attributes args) of
        (Inl error, tr) \<Rightarrow> (Inl error, tr)
      | (Inr note, tr) \<Rightarrow>
          (Inr (text_result
                  (''Note created successfully!'' @ newline @ ''Title: '' @ note_title note
                   @ newline @ ''ID: '' @ note_id note)),
           tr))"
| "run_branch E UpdateNote None = (Inl (Error (type_error_message E)), [])"
| "run_branch E UpdateNote (Some args) =
     (let noteId = arg_noteId args; title = arg_title args; markdown = arg_markdown args;
          parentNoteId = arg_parentNoteId args; attributes = arg_attributes args
      in if \<not> truthy_string title \<and> \<not> truthy_string markdown \<and> \<not> truthy_string parentNoteId
            \<and> \<not> truthy_array attributes
         then (Inr (text_result ''You must provide at least one field to update.''), [])
         else
           (case updateNote E noteId (build_updates title markdown parentNoteId attributes) of
              (Inl error, tr) \<Rightarrow> (Inl error, tr)
            | (Inr note, tr) \<Rightarrow>
                (Inr (text_result
                        (''Note updated successfully!'' @ newline @ ''Title: '' @ note_title note
                         @ newline @ ''ID: '' @ note_id note)),
                 tr)))"
| "run_branch E GetAskInfo args =
     (case getAskInfo E of
        (Inl error, tr) \<Rightarrow> (Inl error, tr)
      | (Inr askInfo, tr) \<Rightarrow>
          (Inr (text_result (''Slite Ask Information:'' @ newline @ stringify E askInfo)), tr))"
| "run_branch E GetAskIndex args =
     (case getAskIndex E of
        (Inl error, tr) \<Rightarrow> (Inl error, tr)
      | (Inr indexInfo, tr) \<Rightarrow>
          (Inr (text_result (''Slite Ask Index Information:'' @ newline @ stringify E indexInfo)),
           tr))"
| "run_branch E GetAutomationAssistant None = (Inl (Error (type_error_message E)), [])"
| "run_branch E GetAutomationAssistant (Some args) =
     (case getAutomationAssistant E (arg_assistantId args) of
        (Inl error, tr) \<Rightarrow> (Inl error, tr)
      | (Inr assistant, tr) \<Rightarrow>
          (Inr (text_result
                  (''Automation Assistant Information:'' @ newline @ stringify E assistant)),
           tr))"

text \<open>The \<^verbatim>\<open>try\<close> block of the handler of \<^verbatim>\<open>CallToolRequestSchema\<close>: the \<^verbatim>\<open>switch\<close> with
  its \<^verbatim>\<open>default\<close>, which throws inside the \<^verbatim>\<open>try\<close>.\<close>

definition CallTool_try :: "env \<Rightarrow> string \<Rightarrow> arguments option \<Rightarrow> CallToolResult io" where
  "CallTool_try E name args =
     (case map_of switch_cases name of
        Some b \<Rightarrow> run_branch E b args
      | None \<Rightarrow> (Inl (McpError MethodNotFound (''Unknown tool: '' @ name)), []))"

text \<open>The handler: whatever the \<^verbatim>\<open>try\<close> block throws, the \<^verbatim>\<open>catch\<close> returns as a result.\<close>

definition CallTool :: "env \<Rightarrow> string \<Rightarrow> arguments option \<Rightarrow> CallToolResult io" where
  "CallTool E name args =
     (case CallTool_try E name args of
        (Inr result, tr) \<Rightarrow> (Inr result, tr)
      | (Inl error, tr) \<Rightarrow>
          (Inr \<lparr>content = [\<lparr>block_type = ''text'',
                             block_text = ''Error: '' @ error_message E error\<rparr>],
                isError = Some True\<rparr>,
           tr))"

section \<open>The adapter of \<^verbatim>\<open>stdio-server.ts\<close>\<close>

text \<open>
  The second adapter registers four tools with \<^verbatim>\<open>server.tool(name, shape, handler)\<close>; the
  SDK validates the arguments against the shape before it calls the handler, so a
  handler's parameters have the types of the shape. Each handler has a \<^verbatim>\<open>catch\<close> of its own
  that returns a text result, and no result carries \<^verbatim>\<open>isError\<close>.
\<close>

definition stdio_tools :: "string list" where
  "stdio_tools = [''search-notes'', ''create-note'', ''update-note'', ''get-ask-info'']"

definition stdio_search_notes :: "env \<Rightarrow> string \<Rightarrow> real option \<Rightarrow> CallToolResult io" where
  "stdio_search_notes E query limit =
     (let limit = (case limit of None \<Rightarrow> 10 | Some l \<Rightarrow> l)
      in case searchNotes E (Some query) (Some limit) of
           (Inr results, tr) \<Rightarrow>
             (Inr (text_result
                     (''Search results for '' @ dquote @ query @ dquote @ '':'' @ newline
                      @ newline @ join newline (map result_line results))),
              tr)
         | (Inl error, tr) \<Rightarrow>
             (Inr (text_result (''Failed to search: '' @ error_message E error)), tr))"

definition stdio_create_note ::
  "env \<Rightarrow> string \<Rightarrow> string \<Rightarrow> string option \<Rightarrow> string list option \<Rightarrow> CallToolResult io" where
  "stdio_create_note E title markdown parentNoteId attributes =
     (case createNote E (Some title) (Some markdown) parentNoteId None attributes of
        (Inr note, tr) \<Rightarrow>
          (Inr (text_result
                  (''Note created successfully!'' @ newline @ ''Title: '' @ note_title note
                   @ newline @ ''ID: '' @ note_id note)),
           tr)
      | (Inl error, tr) \<Rightarrow>
          (Inr (text_result (''Failed to create note: '' @ error_message E error)), tr))"

definition stdio_update_note ::
  "env \<Rightarrow> string \<Rightarrow> string option \<Rightarrow> string option \<Rightarrow> string option \<Rightarrow> string list option \<Rightarrow>
   CallToolResult io" where
  "stdio_update_note E noteId title markdown parentNoteId attributes =
     (if \<not> truthy_string title \<and> \<not> truthy_string markdown \<and> \<not> truthy_string parentNoteId
         \<and> \<not> truthy_array attributes
      then (Inr (text_result ''You must provide at least one field to update.''), [])
      else
        (case updateNote E (Some noteId)
                (build_updates title markdown parentNoteId attributes) of
           (Inr note, tr) \<Rightarrow>
             (Inr (text_result
                     (''Note updated successfully!'' @ newline @ ''Title: '' @ note_title note
                      @ newline @ ''ID: '' @ note_id note)),
              tr)
         | (Inl error, tr) \<Rightarrow>
             (Inr (text_result (''Failed to update note: '' @ error_message E error)), tr)))"

definition stdio_get_ask_info :: "env \<Rightarrow> CallToolResult io" where
  "stdio_get_ask_info E =
     (case getAskInfo E of
        (Inr askInfo, tr) \<Rightarrow>
          (Inr (text_result (''Slite Ask Information:'' @ newline @ stringify E askInfo)), tr)
      | (Inl error, tr) \<Rightarrow>
          (Inr (text_result (''Failed to get Ask info: '' @ error_message E error)), tr))"

section \<open>Sample environments\<close>

text \<open>
  Two concrete environments on which the theorems below are exercised. In \<open>env_500\<close>
  every request fails the way axios reports an HTTP 500; in \<open>env_ok\<close> every request
  succeeds. Both print an \<^verbatim>\<open>McpError\<close> as \<^verbatim>\<open>MCP error <code>: <message>\<close> and stand in one
  fixed text for the serializer; the theorems hold for every environment.
\<close>

fun code_text :: "ErrorCode \<Rightarrow> string" where
  "code_text InvalidRequest = ''-32600''"
| "code_text MethodNotFound = ''-32601''"
| "code_text InternalError = ''-32603''"

definition sample_mcp_message :: "ErrorCode \<Rightarrow> string \<Rightarrow> string" where
  "sample_mcp_message c m = ''MCP error '' @ code_text c @ '': '' @ m"

definition env_500 :: env where
  "env_500 =
     \<lparr>note_api = (\<lambda>r. Inl (Error ''Request failed with status code 500'')),
      search_api = (\<lambda>r. Inl (Error ''Request failed with status code 500'')),
      any_api = (\<lambda>r. Inl (Error ''Request failed with status code 500'')),
      mcp_message = sample_mcp_message,
      stringify = (\<lambda>v. ''{...}''),
      type_error_message = ''Cannot destructure property of undefined'',
      property_error_message = (\<lambda>v p. ''Cannot read properties of null or undefined'')\<rparr>"

definition hello_note :: SliteNote where
  "hello_note =
     \<lparr>note_id = ''abc123'', note_title = ''Greeting'', note_markdown = Some ''Hello'',
      note_parentNoteId = None, note_attributes = None,
      note_createdAt = ''2024-01-01T00:00:00Z'', note_updatedAt = ''2024-01-02T00:00:00Z''\<rparr>"

definition env_ok :: env where
  "env_ok =
     \<lparr>note_api = (\<lambda>r. Inr hello_note),
      search_api = (\<lambda>r. Inr None),
      any_api = (\<lambda>r. Inr JNull),
      mcp_message = sample_mcp_message,
      stringify = (\<lambda>v. ''{...}''),
      type_error_message = ''Cannot destructure property of undefined'',
      property_error_message = (\<lambda>v p. ''Cannot read properties of null or undefined'')\<rparr>"

text \<open>
  Two notes as the remote may send them, with a key the interface does not declare and
  in an order of the remote's choosing; the second has no markdown body. \<open>env_hello\<close> and
  \<open>env_draft\<close> answer the request for a note with them.
\<close>

definition hello_fields :: "(string \<times> json) list" where
  "hello_fields =
     [(''id'', JString ''abc123''), (''title'', JString ''Greeting''),
      (''markdown'', JString ''Hello''), (''url'', JString ''https://example.slite.com/abc123''),
      (''createdAt'', JString ''2024-01-01T00:00:00Z''),
      (''updatedAt'', JString ''2024-01-02T00:00:00Z'')]"

definition draft_fields :: "(string \<times> json) list" where
  "draft_fields =
     [(''updatedAt'', JString ''2024-03-02T00:00:00Z''), (''id'', JString ''xyz789''),
      (''archived'', JBool False), (''title'', JString ''Untitled draft''),
      (''createdAt'', JString ''2024-03-01T00:00:00Z'')]"

definition env_hello :: env where
  "env_hello = env_ok\<lparr>any_api := (\<lambda>r. Inr (JObject hello_fields))\<rparr>"

definition env_draft :: env where
  "env_draft = env_ok\<lparr>any_api := (\<lambda>r. Inr (JObject draft_fields))\<rparr>"

text \<open>An arguments object with no property at all.\<close>

definition no_arguments :: arguments where
  "no_arguments =
     \<lparr>arg_query = None, arg_limit = None, arg_title = None, arg_markdown = None,
      arg_parentNoteId = None, arg_templateId = None, arg_attributes = None,
      arg_noteId = None, arg_assistantId = None\<rparr>"

section \<open>Facts about the definitions\<close>

lemma catalog_names: "map tool_name ListTools = map fst switch_cases"
  by (simp add: ListTools_def switch_cases_def)

lemma switch_default:
  "name \<notin> set (map fst switch_cases) \<Longrightarrow> map_of switch_cases name = None"
  by (simp add: map_of_eq_None_iff)

lemma strip_prefix_Some: "strip_prefix p s = Some r \<longleftrightarrow> s = p @ r"
  by (induction p s rule: strip_prefix.induct) auto

lemma match_notes_uri_segment:
  assumes "nid \<noteq> []" and "CHR ''/'' \<notin> set nid"
  shows "match_notes_uri (''slite://notes/'' @ nid) = Some (Some nid)"
proof -
  have "strip_prefix ''slite://notes'' (''slite://notes'' @ CHR ''/'' # nid) = Some (CHR ''/'' # nid)"
    by (simp only: strip_prefix_Some)
  with assms show ?thesis by (simp add: match_notes_uri_def)
qed

lemma match_notes_uri_None:
  assumes "uri \<noteq> ''slite://notes''"
    and "\<not> (\<exists>nid. nid \<noteq> [] \<and> CHR ''/'' \<notin> set nid \<and> uri = ''slite://notes/'' @ nid)"
  shows "match_notes_uri uri = None"
proof (cases "strip_prefix ''slite://notes'' uri")
  case None
  then show ?thesis by (simp add: match_notes_uri_def)
next
  case (Some rest)
  then have u: "uri = ''slite://notes'' @ rest" by (simp only: strip_prefix_Some)
  show ?thesis
  proof (cases rest)
    case Nil
    with u assms(1) show ?thesis by simp
  next
    case (Cons c seg)
    have "\<not> (c = CHR ''/'' \<and> seg \<noteq> [] \<and> CHR ''/'' \<notin> set seg)"
    proof
      assume a: "c = CHR ''/'' \<and> seg \<noteq> [] \<and> CHR ''/'' \<notin> set seg"
      with u Cons have "uri = ''slite://notes/'' @ seg" by simp
      with a assms(2) show False by blast
    qed
    with Some Cons show ?thesis by (simp add: match_notes_uri_def)
  qed
qed

lemma truthy_string_iff: "truthy_string s \<longleftrightarrow> s \<noteq> None \<and> s \<noteq> Some []"
  by (cases s) simp_all

lemma truthy_array_iff: "truthy_array a \<longleftrightarrow> a \<noteq> None"
  by (cases a) simp_all

lemma build_updates_fields:
  "upd_title (build_updates t m p a) = (if t = Some [] then None else t)"
  "upd_markdown (build_updates t m p a) = (if m = Some [] then None else m)"
  "upd_parentNoteId (build_updates t m p a) = (if p = Some [] then None else p)"
  "upd_attributes (build_updates t m p a) = a"
  by (cases t; cases m; cases p; cases a; simp add: build_updates_def Let_def)+

lemma switch_lookup:
  "map_of switch_cases ''search-notes'' = Some SearchNotes"
  "map_of switch_cases ''create-note'' = Some CreateNote"
  "map_of switch_cases ''update-note'' = Some UpdateNote"
  "map_of switch_cases ''get-ask-info'' = Some GetAskInfo"
  "map_of switch_cases ''get-ask-index'' = Some GetAskIndex"
  "map_of switch_cases ''get-automation-assistant'' = Some GetAutomationAssistant"
  by (simp_all add: switch_cases_def)

text \<open>The requests a client method issues do not depend on how the remote answers.\<close>

lemma snd_updateNote: "snd (updateNote E noteId upd) = [Put (''/notes/'' @ str noteId) upd]"
  by (simp add: updateNote_def Let_def split: sum.splits)

lemma snd_searchNotes:
  "snd (searchNotes E query (Some l))
     = [Get ''/search-notes'' [(''q'', js_string query), (''limit'', JNumber l)]]"
  by (simp add: searchNotes_def Let_def split: sum.splits)

lemma snd_createNote_plain:
  "snd (createNote E title markdown None None None)
     = [Post ''/notes'' [(''title'', js_string title), (''markdown'', js_string markdown)]]"
  by (simp add: createNote_def Let_def split: sum.splits)


lemma searchNotes_throws:
  assumes "search_api E (Get ''/search-notes'' [(''q'', js_string query), (''limit'', JNumber l)])
             = Inl cause"
  shows "searchNotes E query (Some l)
       = (Inl (Error (''Failed to search for '' @ dquote @ str query @ dquote @ '': ''
                      @ error_message E cause)),
          [Get ''/search-notes'' [(''q'', js_string query), (''limit'', JNumber l)]])"
  using assms by (simp add: searchNotes_def Let_def)

text \<open>The \<^verbatim>\<open>catch\<close> of the tool handler keeps the requests and turns every throw into a
  result.\<close>

lemma CallTool_trace: "snd (CallTool E name args) = snd (CallTool_try E name args)"
  by (simp add: CallTool_def split: prod.splits sum.splits)

lemma CallTool_absorbs:
  "fst (CallTool_try E name args) = Inl error \<Longrightarrow>
   fst (CallTool E name args)
     = Inr \<lparr>content = [\<lparr>block_type = ''text'', block_text = ''Error: '' @ error_message E error\<rparr>],
            isError = Some True\<rparr>"
  by (cases "CallTool_try E name args") (simp add: CallTool_def)


lemma CallTool_update:
  "CallTool_try E ''update-note'' (Some args) = run_branch E UpdateNote (Some args)"
  by (simp add: CallTool_try_def switch_lookup)

lemma update_branch_trace:
  "snd (run_branch E UpdateNote (Some args))
     = (if \<not> truthy_string (arg_title args) \<and> \<not> truthy_string (arg_markdown args)
           \<and> \<not> truthy_string (arg_parentNoteId args) \<and> \<not> truthy_array (arg_attributes args)
        then []
        else snd (updateNote E (arg_noteId args)
                    (build_updates (arg_title args) (arg_markdown args) (arg_parentNoteId args)
                       (arg_attributes args))))"
  by (cases "updateNote E (arg_noteId args)
                    (build_updates (arg_title args) (arg_markdown args) (arg_parentNoteId args)
                       (arg_attributes args))")
     (simp add: Let_def split: sum.splits)

lemma stdio_update_trace:
  "snd (stdio_update_note E noteId title markdown parentNoteId attributes)
     = (if \<not> truthy_string title \<and> \<not> truthy_string markdown
           \<and> \<not> truthy_string parentNoteId \<and> \<not> truthy_array attributes
        then []
        else snd (updateNote E (Some noteId)
                    (build_updates title markdown parentNoteId attributes)))"
  by (cases "updateNote E (Some noteId) (build_updates title markdown parentNoteId attributes)")
     (simp add: stdio_update_note_def split: sum.splits)








section \<open>The claims\<close>

subsection \<open>Unknown tool names\<close>

text \<open>
  C1. The claim is that a \<^verbatim>\<open>tools/call\<close> for a name outside the catalog fails as a
  protocol-level \<open>MethodNotFound\<close> error and reaches no remote operation. The \<^verbatim>\<open>default\<close>
  branch does throw \<^verbatim>\<open>McpError(ErrorCode.MethodNotFound, ...)\<close>, but inside the \<^verbatim>\<open>try\<close>, so
  the handler's own \<^verbatim>\<open>catch\<close> takes it: for every name that is not in the catalog the
  call returns an ordinary result, flagged \<^verbatim>\<open>isError\<close>, whose text is \<^verbatim>\<open>Error: \<close> followed by
  the message of that \<^verbatim>\<open>McpError\<close>, and issues no request.
\<close>

theorem unknown_tool_absorbed_by_catch:
  assumes "name \<notin> set (map tool_name ListTools)"
  shows "CallTool E name args
       = (Inr \<lparr>content = [\<lparr>block_type = ''text'',
                  block_text = ''Error: ''
                               @ mcp_message E MethodNotFound (''Unknown tool: '' @ name)\<rparr>],
               isError = Some True\<rparr>, [])"
proof -
  from assms have "name \<notin> set (map fst switch_cases)"
    unfolding catalog_names .
  then have "map_of switch_cases name = None"
    by (rule switch_default)
  then show ?thesis by (simp add: CallTool_def CallTool_try_def)
qed

theorem unknown_tool_absorbed_by_catch_witness:
  "''delete-note'' \<notin> set (map tool_name ListTools)
   \<and> CallTool env_500 ''delete-note'' (Some no_arguments)
       = (Inr \<lparr>content = [\<lparr>block_type = ''text'',
                  block_text = ''Error: MCP error -32601: Unknown tool: delete-note''\<rparr>],
               isError = Some True\<rparr>, [])"
proof -
  have h: "''delete-note'' \<notin> set (map tool_name ListTools)"
    by (simp add: ListTools_def)
  show ?thesis
    using h unknown_tool_absorbed_by_catch [OF h, of env_500 "Some no_arguments"]
    by (simp add: env_500_def sample_mcp_message_def)
qed

subsection \<open>Remote failures\<close>




text \<open>
  C3, as written, fails for the search-notes tool of \<^verbatim>\<open>stdio-server.ts\<close>: its \<^verbatim>\<open>catch\<close>
  returns a text that begins \<^verbatim>\<open>Failed to search:\<close> and a result without \<^verbatim>\<open>isError\<close>.
\<close>

theorem stdio_search_failure_not_flagged:
  "stdio_search_notes env_500 ''roadmap'' None
     = (Inr \<lparr>content = [\<lparr>block_type = ''text'',
                block_text = ''Failed to search: Failed to search for '' @ dquote @ ''roadmap''
                             @ dquote @ '': Request failed with status code 500''\<rparr>],
             isError = None\<rparr>,
        [Get ''/search-notes'' [(''q'', JString ''roadmap''), (''limit'', JNumber 10)]])"
  by (simp add: stdio_search_notes_def searchNotes_def env_500_def text_result_def Let_def)

text \<open>
  C3, amended. When the search request of a search-notes call throws, the handler of
  \<^verbatim>\<open>index.ts\<close> returns a result with \<^verbatim>\<open>isError\<close> true and the single text block
  \<^verbatim>\<open>Error: Failed to search for "<query>": <cause>\<close>; the handler of \<^verbatim>\<open>stdio-server.ts\<close>
  returns a result without \<^verbatim>\<open>isError\<close> and the single text block
  \<^verbatim>\<open>Failed to search: Failed to search for "<query>": <cause>\<close>.
\<close>

theorem search_failure_response:
  assumes "arg_query args = Some q"
    and "limit = (case arg_limit args of None \<Rightarrow> 10 | Some l \<Rightarrow> l)"
    and "search_api E (Get ''/search-notes'' [(''q'', JString q), (''limit'', JNumber limit)])
           = Inl cause"
  shows "fst (CallTool E ''search-notes'' (Some args))
           = Inr \<lparr>content = [\<lparr>block_type = ''text'',
                      block_text = ''Error: '' @ ''Failed to search for '' @ dquote @ q @ dquote
                                   @ '': '' @ error_message E cause\<rparr>],
                   isError = Some True\<rparr>
       \<and> fst (stdio_search_notes E q (arg_limit args))
           = Inr \<lparr>content = [\<lparr>block_type = ''text'',
                      block_text = ''Failed to search: '' @ ''Failed to search for '' @ dquote @ q
                                   @ dquote @ '': '' @ error_message E cause\<rparr>],
                   isError = None\<rparr>"
proof -
  from assms(3) have t: "searchNotes E (Some q) (Some limit)
       = (Inl (Error (''Failed to search for '' @ dquote @ q @ dquote @ '': ''
                      @ error_message E cause)),
          [Get ''/search-notes'' [(''q'', JString q), (''limit'', JNumber limit)]])"
    using searchNotes_throws [of E "Some q" limit cause] by simp
  have "fst (CallTool_try E ''search-notes'' (Some args))
          = Inl (Error (''Failed to search for '' @ dquote @ q @ dquote @ '': ''
                        @ error_message E cause))"
    using assms(1) assms(2) t by (simp add: CallTool_try_def switch_lookup Let_def)
  then have a: "fst (CallTool E ''search-notes'' (Some args))
           = Inr \<lparr>content = [\<lparr>block_type = ''text'',
                      block_text = ''Error: '' @ ''Failed to search for '' @ dquote @ q @ dquote
                                   @ '': '' @ error_message E cause\<rparr>],
                   isError = Some True\<rparr>"
    using CallTool_absorbs [of E "''search-notes''" "Some args"] by simp
  have b: "fst (stdio_search_notes E q (arg_limit args))
           = Inr \<lparr>content = [\<lparr>block_type = ''text'',
                      block_text = ''Failed to search: '' @ ''Failed to search for '' @ dquote @ q
                                   @ dquote @ '': '' @ error_message E cause\<rparr>],
                   isError = None\<rparr>"
    using assms(2) t by (simp add: stdio_search_notes_def text_result_def Let_def)
  from a b show ?thesis by simp
qed

theorem search_failure_response_witness:
  "arg_query (no_arguments\<lparr>arg_query := Some ''roadmap''\<rparr>) = Some ''roadmap''
   \<and> search_api env_500
        (Get ''/search-notes'' [(''q'', JString ''roadmap''), (''limit'', JNumber 10)])
       = Inl (Error ''Request failed with status code 500'')
   \<and> fst (CallTool env_500 ''search-notes'' (Some (no_arguments\<lparr>arg_query := Some ''roadmap''\<rparr>)))
       = Inr \<lparr>content = [\<lparr>block_type = ''text'',
                 block_text = ''Error: Failed to search for '' @ dquote @ ''roadmap'' @ dquote
                              @ '': Request failed with status code 500''\<rparr>],
              isError = Some True\<rparr>"
proof -
  have h1: "arg_query (no_arguments\<lparr>arg_query := Some ''roadmap''\<rparr>) = Some ''roadmap''"
    by simp
  have h2: "(10::real) = (case arg_limit (no_arguments\<lparr>arg_query := Some ''roadmap''\<rparr>) of
                            None \<Rightarrow> 10 | Some l \<Rightarrow> l)"
    by (simp add: no_arguments_def)
  have h3: "search_api env_500
              (Get ''/search-notes'' [(''q'', JString ''roadmap''), (''limit'', JNumber 10)])
       = Inl (Error ''Request failed with status code 500'')"
    by (simp add: env_500_def)
  show ?thesis using h1 h3 search_failure_response [OF h1 h2 h3] by simp
qed

subsection \<open>Updating a note\<close>

text \<open>
  C4. An update-note call whose arguments have none of \<^verbatim>\<open>title\<close>, \<^verbatim>\<open>markdown\<close>,
  \<^verbatim>\<open>parentNoteId\<close> and \<^verbatim>\<open>attributes\<close> returns the single text block that asks for at least
  one field, without \<^verbatim>\<open>isError\<close>, and issues no request; so does the handler of
  \<^verbatim>\<open>stdio-server.ts\<close>.
\<close>

theorem update_without_fields_rejected:
  assumes "arg_title args = None" and "arg_markdown args = None"
    and "arg_parentNoteId args = None" and "arg_attributes args = None"
  shows "CallTool E ''update-note'' (Some args)
           = (Inr \<lparr>content = [\<lparr>block_type = ''text'',
                      block_text = ''You must provide at least one field to update.''\<rparr>],
                   isError = None\<rparr>, [])
       \<and> stdio_update_note E noteId None None None None
           = (Inr \<lparr>content = [\<lparr>block_type = ''text'',
                      block_text = ''You must provide at least one field to update.''\<rparr>],
                   isError = None\<rparr>, [])"
  using assms
  by (simp add: CallTool_def CallTool_try_def switch_lookup stdio_update_note_def text_result_def)

theorem update_without_fields_rejected_witness:
  "arg_title (no_arguments\<lparr>arg_noteId := Some ''n1''\<rparr>) = None
   \<and> arg_markdown (no_arguments\<lparr>arg_noteId := Some ''n1''\<rparr>) = None
   \<and> arg_parentNoteId (no_arguments\<lparr>arg_noteId := Some ''n1''\<rparr>) = None
   \<and> arg_attributes (no_arguments\<lparr>arg_noteId := Some ''n1''\<rparr>) = None
   \<and> CallTool env_ok ''update-note'' (Some (no_arguments\<lparr>arg_noteId := Some ''n1''\<rparr>))
       = (Inr \<lparr>content = [\<lparr>block_type = ''text'',
                      block_text = ''You must provide at least one field to update.''\<rparr>],
                   isError = None\<rparr>, [])
   \<and> stdio_update_note env_ok ''n1'' None None None None
       = (Inr \<lparr>content = [\<lparr>block_type = ''text'',
                      block_text = ''You must provide at least one field to update.''\<rparr>],
                   isError = None\<rparr>, [])"
proof -
  have h: "arg_title (no_arguments\<lparr>arg_noteId := Some ''n1''\<rparr>) = None"
    "arg_markdown (no_arguments\<lparr>arg_noteId := Some ''n1''\<rparr>) = None"
    "arg_parentNoteId (no_arguments\<lparr>arg_noteId := Some ''n1''\<rparr>) = None"
    "arg_attributes (no_arguments\<lparr>arg_noteId := Some ''n1''\<rparr>) = None"
    by (simp_all add: no_arguments_def)
  show ?thesis using h update_without_fields_rejected [OF h, of env_ok "''n1''"] by simp
qed

text \<open>
  C10. In update-note an optional string that is empty counts as absent. When each of
  \<^verbatim>\<open>title\<close>, \<^verbatim>\<open>markdown\<close> and \<^verbatim>\<open>parentNoteId\<close> is absent or empty and \<^verbatim>\<open>attributes\<close> is absent,
  the call returns the text that asks for at least one field and issues no request.
  Otherwise it issues exactly one \<^verbatim>\<open>PUT /notes/{noteId}\<close> whose body has a string field
  only when the argument is a non-empty string, and the attributes as given. Both
  adapters behave so.
\<close>

theorem update_empty_strings_dropped:
  "(if (arg_title args = None \<or> arg_title args = Some [])
       \<and> (arg_markdown args = None \<or> arg_markdown args = Some [])
       \<and> (arg_parentNoteId args = None \<or> arg_parentNoteId args = Some [])
       \<and> arg_attributes args = None
    then CallTool E ''update-note'' (Some args)
           = (Inr \<lparr>content = [\<lparr>block_type = ''text'',
                      block_text = ''You must provide at least one field to update.''\<rparr>],
                   isError = None\<rparr>, [])
       \<and> stdio_update_note E noteId (arg_title args) (arg_markdown args) (arg_parentNoteId args)
            (arg_attributes args)
           = (Inr \<lparr>content = [\<lparr>block_type = ''text'',
                      block_text = ''You must provide at least one field to update.''\<rparr>],
                   isError = None\<rparr>, [])
    else (\<exists>payload.
            snd (CallTool E ''update-note'' (Some args))
              = [Put (''/notes/'' @ str (arg_noteId args)) payload]
          \<and> snd (stdio_update_note E noteId (arg_title args) (arg_markdown args)
                   (arg_parentNoteId args) (arg_attributes args))
              = [Put (''/notes/'' @ noteId) payload]
          \<and> upd_title payload = (if arg_title args = Some [] then None else arg_title args)
          \<and> upd_markdown payload = (if arg_markdown args = Some [] then None else arg_markdown args)
          \<and> upd_parentNoteId payload
              = (if arg_parentNoteId args = Some [] then None else arg_parentNoteId args)
          \<and> upd_attributes payload = arg_attributes args))"
proof (cases "(arg_title args = None \<or> arg_title args = Some [])
       \<and> (arg_markdown args = None \<or> arg_markdown args = Some [])
       \<and> (arg_parentNoteId args = None \<or> arg_parentNoteId args = Some [])
       \<and> arg_attributes args = None")
  case True
  then have f: "\<not> truthy_string (arg_title args)" "\<not> truthy_string (arg_markdown args)"
    "\<not> truthy_string (arg_parentNoteId args)" "\<not> truthy_array (arg_attributes args)"
    by (auto simp add: truthy_string_iff truthy_array_iff)
  have "CallTool E ''update-note'' (Some args)
           = (Inr \<lparr>content = [\<lparr>block_type = ''text'',
                      block_text = ''You must provide at least one field to update.''\<rparr>],
                   isError = None\<rparr>, [])"
    using f by (simp add: CallTool_def CallTool_update text_result_def)
  moreover have "stdio_update_note E noteId (arg_title args) (arg_markdown args)
            (arg_parentNoteId args) (arg_attributes args)
           = (Inr \<lparr>content = [\<lparr>block_type = ''text'',
                      block_text = ''You must provide at least one field to update.''\<rparr>],
                   isError = None\<rparr>, [])"
    using f by (simp add: stdio_update_note_def text_result_def)
  ultimately show ?thesis using True by simp
next
  case False
  then have t: "(\<not> truthy_string (arg_title args) \<and> \<not> truthy_string (arg_markdown args)
      \<and> \<not> truthy_string (arg_parentNoteId args) \<and> \<not> truthy_array (arg_attributes args))
      = False"
    by (simp add: truthy_string_iff truthy_array_iff)
  let ?u = "build_updates (arg_title args) (arg_markdown args) (arg_parentNoteId args)
              (arg_attributes args)"
  have a: "snd (CallTool E ''update-note'' (Some args)) = snd (updateNote E (arg_noteId args) ?u)"
    by (simp only: CallTool_trace CallTool_update update_branch_trace t if_False)
  have b: "snd (stdio_update_note E noteId (arg_title args) (arg_markdown args)
                   (arg_parentNoteId args) (arg_attributes args))
             = snd (updateNote E (Some noteId) ?u)"
    by (simp only: stdio_update_trace t if_False)
  have c: "snd (CallTool E ''update-note'' (Some args))
             = [Put (''/notes/'' @ str (arg_noteId args)) ?u]
      \<and> snd (stdio_update_note E noteId (arg_title args) (arg_markdown args)
                   (arg_parentNoteId args) (arg_attributes args))
              = [Put (''/notes/'' @ noteId) ?u]
      \<and> upd_title ?u = (if arg_title args = Some [] then None else arg_title args)
      \<and> upd_markdown ?u = (if arg_markdown args = Some [] then None else arg_markdown args)
      \<and> upd_parentNoteId ?u
              = (if arg_parentNoteId args = Some [] then None else arg_parentNoteId args)
      \<and> upd_attributes ?u = arg_attributes args"
    using a b by (simp only: snd_updateNote build_updates_fields str.simps simp_thms)
  have "\<exists>payload.
            snd (CallTool E ''update-note'' (Some args))
              = [Put (''/notes/'' @ str (arg_noteId args)) payload]
          \<and> snd (stdio_update_note E noteId (arg_title args) (arg_markdown args)
                   (arg_parentNoteId args) (arg_attributes args))
              = [Put (''/notes/'' @ noteId) payload]
          \<and> upd_title payload = (if arg_title args = Some [] then None else arg_title args)
          \<and> upd_markdown payload = (if arg_markdown args = Some [] then None else arg_markdown args)
          \<and> upd_parentNoteId payload
              = (if arg_parentNoteId args = Some [] then None else arg_parentNoteId args)
          \<and> upd_attributes payload = arg_attributes args"
    by (rule exI [where x = "?u"]) (rule c)
  with False show ?thesis by (simp only: if_False)
qed

theorem update_empty_strings_dropped_witness:
  "CallTool env_ok ''update-note''
     (Some (no_arguments\<lparr>arg_noteId := Some ''n1'', arg_title := Some ''''\<rparr>))
     = (Inr \<lparr>content = [\<lparr>block_type = ''text'',
                      block_text = ''You must provide at least one field to update.''\<rparr>],
                   isError = None\<rparr>, [])
   \<and> snd (CallTool env_ok ''update-note''
            (Some (no_arguments\<lparr>arg_noteId := Some ''n1'', arg_title := Some '''',
                                 arg_markdown := Some ''Body''\<rparr>)))
     = [Put ''/notes/n1'' \<lparr>upd_title = None, upd_markdown = Some ''Body'', upd_parentNoteId = None,
                           upd_attributes = None\<rparr>]"
  using update_empty_strings_dropped
          [of "no_arguments\<lparr>arg_noteId := Some ''n1'', arg_title := Some ''''\<rparr>" env_ok "''n1''"]
  by (simp add: no_arguments_def CallTool_trace CallTool_update build_updates_def updateNote_def
        env_ok_def Let_def)

subsection \<open>Creating and searching\<close>

text \<open>
  C5. \<^verbatim>\<open>createNote\<close> with a title, a markdown body and no optional parameter posts to
  \<^verbatim>\<open>/notes\<close> the object with exactly the keys \<^verbatim>\<open>title\<close> and \<^verbatim>\<open>markdown\<close>, and that is the one
  request of a create-note call with only these two arguments, in either adapter.
\<close>

theorem create_note_minimal_payload:
  "snd (createNote E (Some T) (Some M) None None None)
     = [Post ''/notes'' [(''title'', JString T), (''markdown'', JString M)]]
   \<and> snd (CallTool E ''create-note''
            (Some (no_arguments\<lparr>arg_title := Some T, arg_markdown := Some M\<rparr>)))
     = [Post ''/notes'' [(''title'', JString T), (''markdown'', JString M)]]
   \<and> snd (stdio_create_note E T M None None)
     = [Post ''/notes'' [(''title'', JString T), (''markdown'', JString M)]]"
proof -
  have a: "snd (createNote E (Some T) (Some M) None None None)
     = [Post ''/notes'' [(''title'', JString T), (''markdown'', JString M)]]"
    by (simp add: snd_createNote_plain)
  have b: "snd (CallTool E ''create-note''
                 (Some (no_arguments\<lparr>arg_title := Some T, arg_markdown := Some M\<rparr>)))
     = snd (createNote E (Some T) (Some M) None None None)"
    by (simp add: CallTool_trace CallTool_try_def switch_lookup no_arguments_def
             split: prod.splits sum.splits)
  have c: "snd (stdio_create_note E T M None None)
     = snd (createNote E (Some T) (Some M) None None None)"
    by (simp add: stdio_create_note_def split: prod.splits sum.splits)
  from a b c show ?thesis by simp
qed

text \<open>
  C8. A search-notes call whose arguments have a query and no limit issues the search
  request with \<^verbatim>\<open>limit\<close> 10, in either adapter.
\<close>

theorem search_default_limit:
  assumes "arg_query args = Some q" and "arg_limit args = None"
  shows "snd (CallTool E ''search-notes'' (Some args))
           = [Get ''/search-notes'' [(''q'', JString q), (''limit'', JNumber 10)]]
       \<and> snd (stdio_search_notes E q None)
           = [Get ''/search-notes'' [(''q'', JString q), (''limit'', JNumber 10)]]"
proof -
  have a: "snd (CallTool E ''search-notes'' (Some args)) = snd (searchNotes E (Some q) (Some 10))"
    using assms
    by (simp add: CallTool_trace CallTool_try_def switch_lookup Let_def
             split: prod.splits sum.splits)
  have b: "snd (stdio_search_notes E q None) = snd (searchNotes E (Some q) (Some 10))"
    by (simp add: stdio_search_notes_def Let_def split: prod.splits sum.splits)
  from a b show ?thesis by (simp add: snd_searchNotes)
qed

theorem search_default_limit_witness:
  "arg_query (no_arguments\<lparr>arg_query := Some ''roadmap''\<rparr>) = Some ''roadmap''
   \<and> arg_limit (no_arguments\<lparr>arg_query := Some ''roadmap''\<rparr>) = None
   \<and> snd (CallTool env_ok ''search-notes'' (Some (no_arguments\<lparr>arg_query := Some ''roadmap''\<rparr>)))
       = [Get ''/search-notes'' [(''q'', JString ''roadmap''), (''limit'', JNumber 10)]]"
proof -
  have h1: "arg_query (no_arguments\<lparr>arg_query := Some ''roadmap''\<rparr>) = Some ''roadmap''"
    by simp
  have h2: "arg_limit (no_arguments\<lparr>arg_query := Some ''roadmap''\<rparr>) = None"
    by (simp add: no_arguments_def)
  show ?thesis using h1 h2 search_default_limit [OF h1 h2, of env_ok] by simp
qed

subsection \<open>Reading a note\<close>

text \<open>
  C6. A read of \<^verbatim>\<open>slite://notes/{id}\<close> for which the remote returns a note object issues
  the one request for it and returns one content entry with the URI and, as its title,
  the note's \<^verbatim>\<open>title\<close>. Its text is the note's \<^verbatim>\<open>markdown\<close> when that is a non-empty string;
  when the note has no \<^verbatim>\<open>markdown\<close>, or it is \<^verbatim>\<open>null\<close> or the empty string, the text is
  \<^verbatim>\<open>JSON.stringify\<close> applied to the very object the remote returned.
\<close>

theorem read_note_text:
  assumes "nid \<noteq> []" and "CHR ''/'' \<notin> set nid"
    and "any_api E (Get (''/notes/'' @ nid @ ''?format=md'') []) = Inr (JObject note)"
  shows "\<exists>title text.
           ReadResource E (''slite://notes/'' @ nid)
             = (Inr \<lparr>contents = [\<lparr>rc_uri = ''slite://notes/'' @ nid, rc_title = title,
                                   rc_text = text\<rparr>]\<rparr>,
                [Get (''/notes/'' @ nid @ ''?format=md'') []])
          \<and> (\<forall>t. map_of note ''title'' = Some t \<longrightarrow> title = t)
          \<and> (\<forall>body. map_of note ''markdown'' = Some (JString body) \<and> body \<noteq> []
                \<longrightarrow> text = JString body)
          \<and> (map_of note ''markdown'' = None \<or> map_of note ''markdown'' = Some JNull
              \<or> map_of note ''markdown'' = Some (JString [])
               \<longrightarrow> text = JString (stringify E (JObject note)))"
proof -
  let ?title = "property_of (JObject note) ''title''"
  let ?text = "if truthy (property_of (JObject note) ''markdown'') then property_of (JObject note) ''markdown''
               else JString (stringify E (JObject note))"
  have m: "match_notes_uri (''slite://notes/'' @ nid) = Some (Some nid)"
    using assms(1) assms(2) by (rule match_notes_uri_segment)
  have g: "getNote E (Some nid) None
             = (Inr (JObject note), [Get (''/notes/'' @ nid @ ''?format=md'') []])"
    using assms(3) by (simp add: getNote_def Let_def)
  have r: "ReadResource E (''slite://notes/'' @ nid)
             = (Inr \<lparr>contents = [\<lparr>rc_uri = ''slite://notes/'' @ nid, rc_title = ?title,
                                   rc_text = ?text\<rparr>]\<rparr>,
                [Get (''/notes/'' @ nid @ ''?format=md'') []])"
    using assms(1) g by (simp add: ReadResource_def m Let_def del: append.simps property_of.simps)
  have t: "\<forall>t. map_of note ''title'' = Some t \<longrightarrow> ?title = t"
    by simp
  have b: "\<forall>body. map_of note ''markdown'' = Some (JString body) \<and> body \<noteq> []
             \<longrightarrow> ?text = JString body"
    by simp
  have j: "map_of note ''markdown'' = None \<or> map_of note ''markdown'' = Some JNull
              \<or> map_of note ''markdown'' = Some (JString [])
             \<longrightarrow> ?text = JString (stringify E (JObject note))"
    by auto
  have "ReadResource E (''slite://notes/'' @ nid)
             = (Inr \<lparr>contents = [\<lparr>rc_uri = ''slite://notes/'' @ nid, rc_title = ?title,
                                   rc_text = ?text\<rparr>]\<rparr>,
                [Get (''/notes/'' @ nid @ ''?format=md'') []])
          \<and> (\<forall>t. map_of note ''title'' = Some t \<longrightarrow> ?title = t)
          \<and> (\<forall>body. map_of note ''markdown'' = Some (JString body) \<and> body \<noteq> []
                \<longrightarrow> ?text = JString body)
          \<and> (map_of note ''markdown'' = None \<or> map_of note ''markdown'' = Some JNull
              \<or> map_of note ''markdown'' = Some (JString [])
               \<longrightarrow> ?text = JString (stringify E (JObject note)))"
    using r t b j by (intro conjI)
  then show ?thesis
    by (intro exI [where x = "?title"] exI [where x = "?text"])
qed

theorem read_note_text_witness:
  "''abc123'' \<noteq> [] \<and> CHR ''/'' \<notin> set ''abc123''
   \<and> any_api env_hello (Get ''/notes/abc123?format=md'' []) = Inr (JObject hello_fields)
   \<and> map_of hello_fields ''markdown'' = Some (JString ''Hello'')
   \<and> ReadResource env_hello ''slite://notes/abc123''
       = (Inr \<lparr>contents = [\<lparr>rc_uri = ''slite://notes/abc123'', rc_title = JString ''Greeting'',
                             rc_text = JString ''Hello''\<rparr>]\<rparr>,
          [Get ''/notes/abc123?format=md'' []])
   \<and> any_api env_draft (Get ''/notes/xyz789?format=md'' []) = Inr (JObject draft_fields)
   \<and> map_of draft_fields ''markdown'' = None
   \<and> ReadResource env_draft ''slite://notes/xyz789''
       = (Inr \<lparr>contents = [\<lparr>rc_uri = ''slite://notes/xyz789'',
                             rc_title = JString ''Untitled draft'',
                             rc_text = JString (stringify env_draft (JObject draft_fields))\<rparr>]\<rparr>,
          [Get ''/notes/xyz789?format=md'' []])"
proof -
  have h1: "''abc123'' \<noteq> []" and h2: "CHR ''/'' \<notin> set ''abc123''" by simp_all
  have h3: "any_api env_hello (Get (''/notes/'' @ ''abc123'' @ ''?format=md'') [])
              = Inr (JObject hello_fields)"
    by (simp add: env_hello_def)
  have h4: "map_of hello_fields ''markdown'' = Some (JString ''Hello'')"
    and h5: "map_of hello_fields ''title'' = Some (JString ''Greeting'')"
    by (simp_all add: hello_fields_def)
  have k1: "''xyz789'' \<noteq> []" and k2: "CHR ''/'' \<notin> set ''xyz789''" by simp_all
  have k3: "any_api env_draft (Get (''/notes/'' @ ''xyz789'' @ ''?format=md'') [])
              = Inr (JObject draft_fields)"
    by (simp add: env_draft_def)
  have k4: "map_of draft_fields ''markdown'' = None"
    and k5: "map_of draft_fields ''title'' = Some (JString ''Untitled draft'')"
    by (simp_all add: draft_fields_def)
  have a: "ReadResource env_hello ''slite://notes/abc123''
       = (Inr \<lparr>contents = [\<lparr>rc_uri = ''slite://notes/abc123'', rc_title = JString ''Greeting'',
                             rc_text = JString ''Hello''\<rparr>]\<rparr>,
          [Get ''/notes/abc123?format=md'' []])"
    using read_note_text [OF h1 h2 h3] h4 h5 by auto
  have b: "ReadResource env_draft ''slite://notes/xyz789''
       = (Inr \<lparr>contents = [\<lparr>rc_uri = ''slite://notes/xyz789'',
                             rc_title = JString ''Untitled draft'',
                             rc_text = JString (stringify env_draft (JObject draft_fields))\<rparr>]\<rparr>,
          [Get ''/notes/xyz789?format=md'' []])"
    using read_note_text [OF k1 k2 k3] k4 k5 by auto
  from h1 h2 h3 h4 k3 k4 a b show ?thesis by simp
qed

text \<open>
  C7. A \<^verbatim>\<open>resources/read\<close> whose URI is neither \<^verbatim>\<open>slite://notes\<close> nor \<^verbatim>\<open>slite://notes/\<close>
  followed by one non-empty segment without a slash fails with the protocol error
  \<open>InvalidRequest\<close>, and no request goes to the remote service.
\<close>

theorem read_resource_invalid_uri:
  assumes "uri \<noteq> ''slite://notes''"
    and "\<not> (\<exists>nid. nid \<noteq> [] \<and> CHR ''/'' \<notin> set nid \<and> uri = ''slite://notes/'' @ nid)"
  shows "ReadResource E uri = (Inl (McpError InvalidRequest (''Invalid URI format: '' @ uri)), [])"
  using match_notes_uri_None [OF assms] by (simp add: ReadResource_def)

theorem read_resource_invalid_uri_witness:
  "''slite://notes/a/b'' \<noteq> ''slite://notes''
   \<and> \<not> (\<exists>nid. nid \<noteq> [] \<and> CHR ''/'' \<notin> set nid \<and> ''slite://notes/a/b'' = ''slite://notes/'' @ nid)
   \<and> ReadResource env_500 ''slite://notes/a/b''
       = (Inl (McpError InvalidRequest ''Invalid URI format: slite://notes/a/b''), [])"
proof -
  have h1: "''slite://notes/a/b'' \<noteq> ''slite://notes''" by simp
  have h2: "\<not> (\<exists>nid. nid \<noteq> [] \<and> CHR ''/'' \<notin> set nid
                  \<and> ''slite://notes/a/b'' = ''slite://notes/'' @ nid)"
    by auto
  show ?thesis using h1 h2 read_resource_invalid_uri [OF h1 h2, of env_500] by simp
qed

subsection \<open>The catalog and the dispatch\<close>

text \<open>
  C9. The names of the catalog are the \<^verbatim>\<open>case\<close> labels of the \<^verbatim>\<open>switch\<close>: the two sets are
  equal, a name has one \<^verbatim>\<open>case\<close> when it is in the catalog and none otherwise, and one
  catalog entry when it has a \<^verbatim>\<open>case\<close> and none otherwise.
\<close>

theorem catalog_matches_switch:
  "set (map tool_name ListTools) = set (map fst switch_cases)
   \<and> length (filter (\<lambda>c. fst c = name) switch_cases)
       = (if name \<in> set (map tool_name ListTools) then 1 else 0)
   \<and> length (filter (\<lambda>t. tool_name t = name) ListTools)
       = (if map_of switch_cases name = None then 0 else 1)"
proof -
  have names: "set (map tool_name ListTools) = set (map fst switch_cases)"
    by (simp only: catalog_names)
  have labels: "length (filter (\<lambda>c. fst c = name) switch_cases)
                  = (if name \<in> set (map fst switch_cases) then 1 else 0)"
    by (simp add: switch_cases_def)
  have entries: "length (filter (\<lambda>t. tool_name t = name) ListTools)
                   = (if map_of switch_cases name = None then 0 else 1)"
    by (auto simp add: ListTools_def switch_cases_def)
  from names labels entries show ?thesis by (simp only: simp_thms)
qed

end
